theory Spec2Isabelle
  imports Main
begin

section \<open>Documents of the workshop API\<close>

text \<open>
  The model follows the work-order schema and its methods and hooks
  (\<^verbatim>\<open>src/models/WorkOrder.js\<close>), the quote schema and its methods (the second module
  of \<^verbatim>\<open>src/models/Mechanic.js\<close>), the approval handlers of
  \<^verbatim>\<open>src/controllers/quoteController.js\<close> and, of the e-mail service,
  \<^verbatim>\<open>sendWithRetry\<close> and \<^verbatim>\<open>sendReadyNotification\<close>.

  Object ids are natural numbers, dates are milliseconds since the epoch, JavaScript
  numbers that are only stored and compared (costs, year, mileage) are integers. Schema
  enums are datatypes: a value outside the enum cannot be stored, and the status route
  admits only the five status names. A collection is the list of its documents in
  insertion order; \<^verbatim>\<open>save\<close> replaces the stored document with the same id or appends
  a new one. Requests are handled one at a time.

  Saving a quote is the \<^verbatim>\<open>pre('save')\<close> hook and the write: the validators and
  indexes of the quote schema are on fields that approval and rejection leave alone,
  so that saving a stored quote again does not fail. Saving a work order validates it
  against the schema, checks the unique indexes and runs both hooks. The audit log and
  the cache invalidation catch their own errors and touch neither collection; they
  are left out, as is \<^verbatim>\<open>updatedAt\<close>.
\<close>

type_synonym object_id = nat
type_synonym date = int

datatype order_status = pendiente_asignacion | asignada | en_progreso | listo | entregado

datatype quote_status = pending | approved | rejected

datatype token_type = approve | reject

datatype notification_type = orden_creada | notif_asignada | notif_listo | notif_entregado

datatype notification_method = by_email

datatype notification_status = pendiente | enviado | fallido

record vehicle =
  brand :: string
  model :: string
  year :: int
  licensePlate :: string
  mileage :: int

record status_history =
  previousStatus :: order_status
  newStatus :: order_status
  changedBy :: object_id
  changedAt :: date
  "notes" :: string

record notification =
  type :: notification_type
  "method" :: notification_method
  status :: notification_status
  attempts :: nat
  sentAt :: "date option"
  error :: "string option"

record work_order =
  order_id :: object_id
  orderNumber :: "string option"
  quoteId :: object_id
  mechanicId :: "object_id option"
  vehicleSnapshot :: vehicle
  workDescription :: string
  estimatedCost :: int
  finalCost :: "int option"
  status :: order_status
  statusHistory :: "status_history list"
  estimatedDelivery :: "date option"
  actualDelivery :: "date option"
  additionalNotes :: "string option"
  additionalWork :: "string option"
  notifications :: "notification list"
  readyEmailSent :: bool
  readyEmailSentAt :: "date option"
  isDeleted :: bool
  deletedAt :: "date option"
  deletedBy :: "object_id option"
  createdAt :: date

record approval_token =
  token :: string
  type :: token_type
  used :: bool
  usedAt :: "date option"
  ipAddress :: "string option"
  userAgent :: "string option"

record quote =
  quote_id :: object_id
  quoteNumber :: "string option"
  clientId :: object_id
  vehicle :: vehicle
  description :: string
  proposedWork :: string
  estimatedCost :: int
  validUntil :: date
  status :: quote_status
  approvalTokens :: "approval_token list"
  emailSent :: bool
  emailSentAt :: "date option"
  emailAttempts :: nat
  workOrderId :: "object_id option"
  "notes" :: "string option"
  isDeleted :: bool
  deletedAt :: "date option"
  deletedBy :: "object_id option"

record client =
  client_id :: object_id
  email :: string

text \<open>
  What a JavaScript \<^verbatim>\<open>throw\<close> carries: a plain \<^verbatim>\<open>Error\<close> with its message, a
  \<^verbatim>\<open>TypeError\<close>, a Mongoose validation error with the failing paths, or the
  duplicate-key error of a unique index.
\<close>

datatype error =
    Error string
  | TypeError string
  | ValidationError "string list"
  | DuplicateKey string

fun message :: "error \<Rightarrow> string" where
  "message (Error m) = m"
| "message (TypeError m) = m"
| "message (ValidationError ps) = ''WorkOrder validation failed''"
| "message (DuplicateKey p) = ''E11000 duplicate key error''"

text \<open>
  The collections, and the two counters that say how often the server clock and the
  mail transport have been used. The environment answers the \<open>k\<close>-th clock reading
  and the \<open>k\<close>-th call of \<^verbatim>\<open>transporter.sendMail\<close> (\<open>None\<close>: delivered,
  \<open>Some m\<close>: it throws with message \<open>m\<close>).
\<close>

record world =
  quotes :: "quote list"
  orders :: "work_order list"
  clients :: "client list"
  ticks :: nat
  mails :: nat

record env =
  clock :: "nat \<Rightarrow> date"
  sendMail :: "nat \<Rightarrow> string option"
  maxRetries :: int

definition now :: "env \<Rightarrow> world \<Rightarrow> date \<times> world" where
  "now e w = (clock e (ticks w), w\<lparr>ticks := Suc (ticks w)\<rparr>)"

section \<open>Work orders: \<^verbatim>\<open>src/models/WorkOrder.js\<close>\<close>

text \<open>The status names as the schema spells them, and the table of
  \<^verbatim>\<open>validateStatusTransition\<close> (lines 160-166).\<close>

fun status_name :: "order_status \<Rightarrow> string" where
  "status_name pendiente_asignacion = ''pendiente_asignacion''"
| "status_name asignada = ''asignada''"
| "status_name en_progreso = ''en_progreso''"
| "status_name listo = ''listo''"
| "status_name entregado = ''entregado''"

fun transitions :: "order_status \<Rightarrow> order_status list" where
  "transitions pendiente_asignacion = [asignada]"
| "transitions asignada = [en_progreso, pendiente_asignacion]"
| "transitions en_progreso = [listo, asignada]"
| "transitions listo = [entregado, en_progreso]"
| "transitions entregado = []"

text \<open>\<^verbatim>\<open>validateStatusTransition\<close> (lines 159-186) returns \<^verbatim>\<open>{valid: true}\<close> or
  \<^verbatim>\<open>{valid: false, error}\<close> with one of two messages; the table is looked up first,
  the mechanic second.\<close>

datatype validation = Valid | Invalid string

definition cannot_change :: "order_status \<Rightarrow> order_status \<Rightarrow> string" where
  "cannot_change s t =
     ''No se puede cambiar de '' @ [CHR 0x22] @ status_name s @ [CHR 0x22]
       @ '' a '' @ [CHR 0x22] @ status_name t @ [CHR 0x22]"

definition mechanic_required :: string where
  "mechanic_required =
     ''Debe asignar un mec'' @ [CHR 0xE1] @ ''nico antes de iniciar el trabajo''"

definition validateStatusTransition :: "work_order \<Rightarrow> order_status \<Rightarrow> validation" where
  "validateStatusTransition this target =
     (let validTransitions = transitions (work_order.status this) in
      if \<not> List.member validTransitions target
      then Invalid (cannot_change (work_order.status this) target)
      else if target = en_progreso \<and> mechanicId this = None
      then Invalid mechanic_required
      else Valid)"

text \<open>The \<^verbatim>\<open>pre('save')\<close> hook (lines 149-156): without an order number the document
  gets \<^verbatim>\<open>ORD-\<close> and the count of stored orders plus one, padded to four digits.\<close>

fun digits :: "nat \<Rightarrow> string" where
  "digits n = (if n < 10 then [char_of (48 + n)] else digits (n div 10) @ [char_of (48 + n mod 10)])"

declare digits.simps [simp del]

definition padStart :: "string \<Rightarrow> nat \<Rightarrow> char \<Rightarrow> string" where
  "padStart s n c = replicate (n - length s) c @ s"

definition pre_save :: "world \<Rightarrow> work_order \<Rightarrow> work_order" where
  "pre_save w this =
     (if orderNumber this = None \<or> orderNumber this = Some []
      then this\<lparr>orderNumber := Some (''ORD-'' @ padStart (digits (length (orders w) + 1)) 4 (CHR ''0''))\<rparr>
      else this)"

text \<open>The validators of the schema (lines 3-139) that the model's types do not already
  enforce: required strings are not empty, costs are not negative, texts keep to
  their maximal lengths. The result lists the failing paths.\<close>

definition too_long :: "nat \<Rightarrow> string option \<Rightarrow> bool" where
  "too_long n s = (case s of None \<Rightarrow> False | Some x \<Rightarrow> n < length x)"

definition validation_errors :: "work_order \<Rightarrow> string list" where
  "validation_errors d =
     (if brand (vehicleSnapshot d) = [] then [''vehicleSnapshot.brand''] else []) @
     (if model (vehicleSnapshot d) = [] then [''vehicleSnapshot.model''] else []) @
     (if licensePlate (vehicleSnapshot d) = [] then [''vehicleSnapshot.licensePlate''] else []) @
     (if workDescription d = [] then [''workDescription''] else []) @
     (if work_order.estimatedCost d < 0 then [''estimatedCost''] else []) @
     (case finalCost d of None \<Rightarrow> [] | Some c \<Rightarrow> if c < 0 then [''finalCost''] else []) @
     (if list_ex (\<lambda>h. 500 < length (status_history.notes h)) (statusHistory d)
      then [''statusHistory.notes''] else []) @
     (if too_long 2000 (additionalNotes d) then [''additionalNotes''] else []) @
     (if too_long 2000 (additionalWork d) then [''additionalWork''] else [])"

text \<open>The write. \<^verbatim>\<open>orderNumber\<close> and \<^verbatim>\<open>quoteId\<close> carry unique indexes (lines 65-74):
  a second document with the same value is refused with a duplicate-key error.\<close>

definition write_order :: "world \<Rightarrow> work_order \<Rightarrow> error + world" where
  "write_order w d =
     (let others = filter (\<lambda>x. order_id x \<noteq> order_id d) (orders w) in
      if List.member (map orderNumber others) (orderNumber d) then Inl (DuplicateKey ''orderNumber'')
      else if List.member (map quoteId others) (quoteId d) then Inl (DuplicateKey ''quoteId'')
      else if List.member (map order_id (orders w)) (order_id d)
      then Inr (w\<lparr>orders := map (\<lambda>x. if order_id x = order_id d then d else x) (orders w)\<rparr>)
      else Inr (w\<lparr>orders := orders w @ [d]\<rparr>))"

text \<open>\<^verbatim>\<open>sendWithRetry\<close> of the e-mail service: it catches what \<^verbatim>\<open>sendMail\<close> throws,
  tries again while \<^verbatim>\<open>attempt < maxRetries - 1\<close>, and in the end returns
  \<^verbatim>\<open>{success: true}\<close> or \<^verbatim>\<open>{success: false, error}\<close>; it never throws. The waiting
  between attempts is time passing and does not show in the model.\<close>

datatype send_result = SendOk | SendFailed string

function sendWithRetry :: "env \<Rightarrow> nat \<Rightarrow> int \<Rightarrow> send_result \<times> nat" where
  "sendWithRetry e k attempt =
     (case sendMail e k of
        None \<Rightarrow> (SendOk, Suc k)
      | Some m \<Rightarrow>
          if attempt < maxRetries e - 1 then sendWithRetry e (Suc k) (attempt + 1)
          else (SendFailed m, Suc k))"
  by pat_completeness auto
termination
  by (relation "measure (\<lambda>(e, k, attempt). nat (maxRetries e - 1 - attempt))") auto

declare sendWithRetry.simps [simp del]

text \<open>\<^verbatim>\<open>sendReadyNotification\<close>: it looks up the quote and its client, throws when the
  client is missing or has no e-mail address (a missing quote makes
  \<^verbatim>\<open>quote.clientId\<close> a \<^verbatim>\<open>TypeError\<close>), and otherwise returns the result of
  \<^verbatim>\<open>sendWithRetry\<close>, failed or not.\<close>

definition cliente_sin_email :: string where
  "cliente_sin_email = ''Cliente sin email v'' @ [CHR 0xE1] @ ''lido''"

definition sendReadyNotification :: "env \<Rightarrow> world \<Rightarrow> work_order \<Rightarrow> (error + send_result) \<times> world" where
  "sendReadyNotification e w order =
     (case find (\<lambda>q. quote_id q = quoteId order) (quotes w) of
        None \<Rightarrow> (Inl (TypeError ''Cannot read properties of null''), w)
      | Some q \<Rightarrow>
          (case find (\<lambda>c. client_id c = clientId q) (clients w) of
             None \<Rightarrow> (Inl (Error cliente_sin_email), w)
           | Some c \<Rightarrow>
               if email c = [] then (Inl (Error cliente_sin_email), w)
               else (let (result, k) = sendWithRetry e (mails w) 0
                     in (Inr result, w\<lparr>mails := k\<rparr>))))"

text \<open>The notification entries the \<^verbatim>\<open>post('save')\<close> hook pushes (lines 230-236 and
  243-249).\<close>

definition ready_sent :: "date \<Rightarrow> notification" where
  "ready_sent t = \<lparr>notification.type = notif_listo, method = by_email, status = enviado,
                   attempts = 1, sentAt = Some t, error = None\<rparr>"

definition ready_failed :: "string \<Rightarrow> notification" where
  "ready_failed m = \<lparr>notification.type = notif_listo, method = by_email, status = fallido,
                     attempts = 1, sentAt = None, error = Some m\<rparr>"

definition push_notification :: "notification \<Rightarrow> work_order \<Rightarrow> work_order" where
  "push_notification n doc = doc\<lparr>notifications := notifications doc @ [n]\<rparr>"

text \<open>
  The two branches of the \<^verbatim>\<open>post('save')\<close> hook, up to their own
  \<^verbatim>\<open>doc.save()\<close>: after \<^verbatim>\<open>sendReadyNotification\<close> has returned, and in the
  \<^verbatim>\<open>catch\<close> block.
\<close>

definition mark_sent :: "env \<Rightarrow> world \<Rightarrow> work_order \<Rightarrow> work_order \<times> world" where
  "mark_sent e w doc =
     (let (t1, w1) = now e w;
          (t2, w2) = now e w1
      in (push_notification (ready_sent t2)
            (doc\<lparr>readyEmailSent := True, readyEmailSentAt := Some t1\<rparr>), w2))"

definition record_failure :: "error \<Rightarrow> work_order \<Rightarrow> work_order" where
  "record_failure err doc = push_notification (ready_failed (message err)) doc"

text \<open>
  \<^verbatim>\<open>doc.save()\<close>: schema validation (Mongoose runs it ahead of the schema's own
  \<^verbatim>\<open>pre('save')\<close> hooks), the \<^verbatim>\<open>pre('save')\<close> hook, the write with its unique
  indexes, then the \<^verbatim>\<open>post('save')\<close> hook, whose own \<^verbatim>\<open>doc.save()\<close> is a save
  like any other and so runs the hook again. A save that never returns has the value
  \<open>None\<close>. The result carries what was thrown (if anything), the document in memory
  and the collections.
\<close>

partial_function (option) save ::
  "env \<Rightarrow> world \<Rightarrow> work_order \<Rightarrow> (error option \<times> work_order \<times> world) option" where
  "save e w this =
     (if validation_errors this \<noteq> []
      then Some (Some (ValidationError (validation_errors this)), this, w)
      else
        (let doc = pre_save w this in
         case write_order w doc of
           Inl err \<Rightarrow> Some (Some err, doc, w)
         | Inr w1 \<Rightarrow>
             if work_order.status doc = listo \<and> \<not> readyEmailSent doc then
               (case sendReadyNotification e w1 doc of
                  (Inr result, w2) \<Rightarrow>
                    (let (doc1, w3) = mark_sent e w2 doc
                     in Option.bind (save e w3 doc1) (\<lambda>(thrown, doc2, w4).
                          case thrown of
                            None \<Rightarrow> Some (None, doc2, w4)
                          | Some err \<Rightarrow> save e w4 (record_failure err doc2)))
                | (Inl err, w2) \<Rightarrow> save e w2 (record_failure err doc))
             else Some (None, doc, w1)))"

text \<open>\<^verbatim>\<open>changeStatus\<close> (lines 189-217). The note defaults to the empty string. The server
  clock is read for the history entry and, when the target is \<^verbatim>\<open>entregado\<close>, once
  more for the delivery stamp.\<close>

definition changeStatus ::
  "env \<Rightarrow> world \<Rightarrow> work_order \<Rightarrow> order_status \<Rightarrow> object_id \<Rightarrow> string
     \<Rightarrow> (error option \<times> work_order \<times> world) option" where
  "changeStatus e w this target actor note =
     (case validateStatusTransition this target of
        Invalid reason \<Rightarrow> Some (Some (Error reason), this, w)
      | Valid \<Rightarrow>
          (let prev = work_order.status this;
               this1 = this\<lparr>work_order.status := target\<rparr>;
               (t1, w1) = now e w;
               this2 = this1\<lparr>statusHistory := statusHistory this1 @
                         [\<lparr>previousStatus = prev, newStatus = target, changedBy = actor,
                           changedAt = t1, notes = note\<rparr>]\<rparr>;
               (this3, w2) = (if target = entregado
                              then (let (t2, w') = now e w1 in (this2\<lparr>actualDelivery := Some t2\<rparr>, w'))
                              else (this2, w1))
           in save e w2 this3))"

text \<open>\<^verbatim>\<open>WorkOrder.create\<close> as the approval handlers call it: a new id, the schema
  defaults, \<^verbatim>\<open>createdAt\<close> from the server clock, then \<^verbatim>\<open>save\<close>.\<close>

definition fresh_id :: "world \<Rightarrow> object_id" where
  "fresh_id w = Suc (fold max (map order_id (orders w)) 0)"

definition create ::
  "env \<Rightarrow> world \<Rightarrow> object_id \<Rightarrow> vehicle \<Rightarrow> string \<Rightarrow> int \<Rightarrow> order_status
     \<Rightarrow> (error option \<times> work_order \<times> world) option" where
  "create e w qid snapshot descr cost st =
     (let (t, w1) = now e w;
          doc = \<lparr>order_id = fresh_id w, orderNumber = None, quoteId = qid, mechanicId = None,
                 vehicleSnapshot = snapshot, workDescription = descr,
                 work_order.estimatedCost = cost, finalCost = None, work_order.status = st,
                 statusHistory = [], estimatedDelivery = None, actualDelivery = None,
                 additionalNotes = None, additionalWork = None, notifications = [],
                 readyEmailSent = False, readyEmailSentAt = None,
                 work_order.isDeleted = False, work_order.deletedAt = None,
                 work_order.deletedBy = None, createdAt = t\<rparr>
      in save e w1 doc)"

section \<open>Quotes\<close>

text \<open>The quote model. \<^verbatim>\<open>validateToken\<close> (lines 333-353) names its four failures by these
  messages; the specification calls them invalid_token, token_used, expired and
  already_processed. The clock is read only when the token is found and unused.\<close>

definition invalid_token :: string where
  "invalid_token = ''Token inv'' @ [CHR 0xE1] @ ''lido''"

definition token_used :: string where
  "token_used = ''Token ya fue utilizado''"

definition expired :: string where
  "expired = ''Token expirado''"

definition already_processed :: string where
  "already_processed = ''Presupuesto ya fue procesado''"

datatype token_validation = TokenValid token_type approval_token | TokenInvalid string

definition validateToken :: "env \<Rightarrow> world \<Rightarrow> quote \<Rightarrow> string \<Rightarrow> token_validation \<times> world" where
  "validateToken e w this tok =
     (case find (\<lambda>t. token t = tok) (approvalTokens this) of
        None \<Rightarrow> (TokenInvalid invalid_token, w)
      | Some tokenObj \<Rightarrow>
          if used tokenObj then (TokenInvalid token_used, w)
          else (let (t, w1) = now e w in
                if validUntil this < t then (TokenInvalid expired, w1)
                else if quote.status this \<noteq> pending then (TokenInvalid already_processed, w1)
                else (TokenValid (approval_token.type tokenObj) tokenObj, w1)))"

text \<open>Saving a quote: the \<^verbatim>\<open>pre('save')\<close> hook (lines 303-309) and the write.\<close>

definition pre_save_quote :: "world \<Rightarrow> quote \<Rightarrow> quote" where
  "pre_save_quote w this =
     (if quoteNumber this = None \<or> quoteNumber this = Some []
      then this\<lparr>quoteNumber := Some (''PRES-'' @ padStart (digits (length (quotes w) + 1)) 4 (CHR ''0''))\<rparr>
      else this)"

definition save_quote :: "world \<Rightarrow> quote \<Rightarrow> quote \<times> world" where
  "save_quote w this =
     (let doc = pre_save_quote w this in
      if List.member (map quote_id (quotes w)) (quote_id doc)
      then (doc, w\<lparr>quotes := map (\<lambda>x. if quote_id x = quote_id doc then doc else x) (quotes w)\<rparr>)
      else (doc, w\<lparr>quotes := quotes w @ [doc]\<rparr>))"

text \<open>\<^verbatim>\<open>useToken\<close> (lines 356-375): the first token with the presented string is marked
  used with time, address and user agent; then every token with a different string is
  marked used, each with its own clock reading; then the quote is saved. An unknown
  string changes nothing.\<close>

fun mark_first :: "string \<Rightarrow> (approval_token \<Rightarrow> approval_token) \<Rightarrow> approval_token list \<Rightarrow> approval_token list" where
  "mark_first tok f [] = []"
| "mark_first tok f (t # ts) = (if token t = tok then f t # ts else t # mark_first tok f ts)"

fun invalidate_others :: "env \<Rightarrow> string \<Rightarrow> approval_token list \<Rightarrow> world \<Rightarrow> approval_token list \<times> world" where
  "invalidate_others e tok [] w = ([], w)"
| "invalidate_others e tok (t # ts) w =
     (if token t \<noteq> tok
      then (let (d, w1) = now e w;
                (ts', w2) = invalidate_others e tok ts w1
            in (t\<lparr>used := True, usedAt := Some d\<rparr> # ts', w2))
      else (let (ts', w2) = invalidate_others e tok ts w in (t # ts', w2)))"

definition useToken ::
  "env \<Rightarrow> world \<Rightarrow> quote \<Rightarrow> string \<Rightarrow> string option \<Rightarrow> string option \<Rightarrow> quote \<times> world" where
  "useToken e w this tok ip ua =
     (case find (\<lambda>t. token t = tok) (approvalTokens this) of
        None \<Rightarrow> (this, w)
      | Some tokenObj \<Rightarrow>
          (let (d, w1) = now e w;
               ts1 = mark_first tok
                       (\<lambda>t. t\<lparr>used := True, usedAt := Some d, ipAddress := ip, userAgent := ua\<rparr>)
                       (approvalTokens this);
               (ts2, w2) = invalidate_others e tok ts1 w1
           in save_quote w2 (this\<lparr>approvalTokens := ts2\<rparr>)))"

text \<open>\<^verbatim>\<open>generateTokens\<close> (lines 312-330); the two random strings are parameters.\<close>

definition generateTokens :: "quote \<Rightarrow> string \<Rightarrow> string \<Rightarrow> quote" where
  "generateTokens this approveToken rejectToken =
     this\<lparr>approvalTokens :=
       [\<lparr>token = approveToken, approval_token.type = approve, used = False, usedAt = None,
         ipAddress = None, userAgent = None\<rparr>,
        \<lparr>token = rejectToken, approval_token.type = reject, used = False, usedAt = None,
         ipAddress = None, userAgent = None\<rparr>]\<rparr>"

text \<open>The approval handlers of \<^verbatim>\<open>quoteController.js\<close>. A request carries the id of the
  route, the token of the query string, the address and the user agent. A handler
  replies with a status code and a text, or fails with an error that the
  \<^verbatim>\<open>asyncHandler\<close> wrapper hands to the error middleware.\<close>

record request =
  param_id :: object_id
  query_token :: "string option"
  ip :: "string option"
  user_agent :: "string option"

datatype reply = Sent nat string | Failed error

definition work_description :: "quote \<Rightarrow> string" where
  "work_description q =
     description q @ [CHR 0x0A, CHR 0x0A] @ ''Trabajo propuesto:'' @ [CHR 0x0A] @ proposedWork q"

text \<open>
  The statements shared by \<^verbatim>\<open>approveQuote\<close> (lines 375-389) and
  \<^verbatim>\<open>approveQuoteManual\<close> (lines 553-566): store the approved status, create the
  work order from the quote, store the link. A throw of \<^verbatim>\<open>WorkOrder.create\<close>
  leaves the function at that point.
\<close>

definition approve_and_create :: "env \<Rightarrow> world \<Rightarrow> quote \<Rightarrow> ((error + work_order) \<times> quote \<times> world) option" where
  "approve_and_create e w q =
     (let (q1, w1) = save_quote w (q\<lparr>quote.status := approved\<rparr>)
      in Option.bind
           (create e w1 (quote_id q1) (vehicle q1) (work_description q1)
              (quote.estimatedCost q1) pendiente_asignacion)
           (\<lambda>(thrown, order, w2).
              case thrown of
                Some err \<Rightarrow> Some (Inl err, q1, w2)
              | None \<Rightarrow>
                  (let (q2, w3) = save_quote w2 (q1\<lparr>workOrderId := Some (order_id order)\<rparr>)
                   in Some (Inr order, q2, w3))))"

definition no_approval_token :: string where
  "no_approval_token = ''Token de aprobaci'' @ [CHR 0xF3] @ ''n no proporcionado''"

definition no_rejection_token :: string where
  "no_rejection_token = ''Token de rechazo no proporcionado''"

definition not_found :: string where
  "not_found = ''Presupuesto no encontrado''"

definition approved_page :: string where
  "approved_page = ''Presupuesto Aprobado''"

definition rejected_page :: string where
  "rejected_page = ''Presupuesto Rechazado''"


text \<open>\<^verbatim>\<open>approveQuote\<close> (lines 333-440) and \<^verbatim>\<open>rejectQuote\<close> (lines 445-529) do not look at the
  type of the token. After their writes they read \<^verbatim>\<open>quote.clientId._id\<close> for the audit
  log, a \<^verbatim>\<open>TypeError\<close> when the populated client is missing.
  \<^verbatim>\<open>approveQuoteManual\<close> is lines 534-587.\<close>

definition client_of :: "world \<Rightarrow> quote \<Rightarrow> client option" where
  "client_of w q = find (\<lambda>c. client_id c = clientId q) (clients w)"

definition approveQuote :: "env \<Rightarrow> world \<Rightarrow> request \<Rightarrow> (reply \<times> world) option" where
  "approveQuote e w req =
     (case query_token req of
        None \<Rightarrow> Some (Sent 400 no_approval_token, w)
      | Some tok \<Rightarrow>
          if tok = [] then Some (Sent 400 no_approval_token, w)
          else
            (case find (\<lambda>q. quote_id q = param_id req) (quotes w) of
               None \<Rightarrow> Some (Sent 404 not_found, w)
             | Some quote \<Rightarrow>
                 (case validateToken e w quote tok of
                    (TokenInvalid msg, w1) \<Rightarrow> Some (Sent 400 msg, w1)
                  | (TokenValid ty tokenObj, w1) \<Rightarrow>
                      (let (q1, w2) = useToken e w1 quote tok (ip req) (user_agent req)
                       in Option.bind (approve_and_create e w2 q1) (\<lambda>(r, q2, w3).
                            case r of
                              Inl err \<Rightarrow> Some (Failed err, w3)
                            | Inr order \<Rightarrow>
                                if client_of w3 q2 = None
                                then Some (Failed (TypeError ''Cannot read properties of null''), w3)
                                else Some (Sent 200 approved_page, w3))))))"

definition rejectQuote :: "env \<Rightarrow> world \<Rightarrow> request \<Rightarrow> reply \<times> world" where
  "rejectQuote e w req =
     (case query_token req of
        None \<Rightarrow> (Sent 400 no_rejection_token, w)
      | Some tok \<Rightarrow>
          if tok = [] then (Sent 400 no_rejection_token, w)
          else
            (case find (\<lambda>q. quote_id q = param_id req) (quotes w) of
               None \<Rightarrow> (Sent 404 not_found, w)
             | Some quote \<Rightarrow>
                 (case validateToken e w quote tok of
                    (TokenInvalid msg, w1) \<Rightarrow> (Sent 400 msg, w1)
                  | (TokenValid ty tokenObj, w1) \<Rightarrow>
                      (let (q1, w2) = useToken e w1 quote tok (ip req) (user_agent req);
                           (q2, w3) = save_quote w2 (q1\<lparr>quote.status := rejected\<rparr>)
                       in if client_of w3 q2 = None
                          then (Failed (TypeError ''Cannot read properties of null''), w3)
                          else (Sent 200 rejected_page, w3)))))"


section \<open>Serialisation of quotes: the \<^verbatim>\<open>toJSON\<close> transform\<close>

datatype json =
    JUndefined
  | JNull
  | JBool bool
  | JNum int
  | JStr string
  | JArr "json list"
  | JObj "(string \<times> json) list"

fun property :: "json \<Rightarrow> string \<Rightarrow> json" where
  "property (JObj kvs) k = (case map_of kvs k of None \<Rightarrow> JUndefined | Some v \<Rightarrow> v)"
| "property j k = JUndefined"

fun assign :: "json \<Rightarrow> string \<Rightarrow> json \<Rightarrow> json" where
  "assign (JObj kvs) k v =
     (if List.member (map fst kvs) k
      then JObj (map (\<lambda>(k', v'). if k' = k then (k', v) else (k', v')) kvs)
      else JObj (kvs @ [(k, v)]))"
| "assign j k v = j"

fun delete :: "json \<Rightarrow> string \<Rightarrow> json" where
  "delete (JObj kvs) k = JObj (filter (\<lambda>(k', v'). k' \<noteq> k) kvs)"
| "delete j k = j"

fun truthy :: "json \<Rightarrow> bool" where
  "truthy JUndefined = False"
| "truthy JNull = False"
| "truthy (JBool b) = b"
| "truthy (JNum n) = (n \<noteq> 0)"
| "truthy (JStr s) = (s \<noteq> [])"
| "truthy (JArr xs) = True"
| "truthy (JObj kvs) = True"

fun array_map :: "(json \<Rightarrow> json) \<Rightarrow> json \<Rightarrow> json" where
  "array_map f (JArr xs) = JArr (map f xs)"
| "array_map f j = j"

definition transform :: "json \<Rightarrow> json" where
  "transform ret =
     (let ret1 = (if truthy (property ret ''approvalTokens'')
                  then assign ret ''approvalTokens''
                         (array_map (\<lambda>t. JObj [(''type'', property t ''type''),
                                                 (''used'', property t ''used''),
                                                 (''usedAt'', property t ''usedAt'')])
                            (property ret ''approvalTokens''))
                  else ret)
      in if \<not> truthy (property ret1 ''isDeleted'')
         then delete (delete ret1 ''deletedAt'') ''deletedBy''
         else ret1)"

text \<open>
  The plain object Mongoose hands to the transform: one key per schema path, a missing
  optional value as \<^verbatim>\<open>undefined\<close>.
\<close>

definition opt :: "('a \<Rightarrow> json) \<Rightarrow> 'a option \<Rightarrow> json" where
  "opt f x = (case x of None \<Rightarrow> JUndefined | Some v \<Rightarrow> f v)"

definition token_type_name :: "token_type \<Rightarrow> string" where
  "token_type_name t = (case t of approve \<Rightarrow> ''approve'' | reject \<Rightarrow> ''reject'')"

definition quote_status_name :: "quote_status \<Rightarrow> string" where
  "quote_status_name s =
     (case s of pending \<Rightarrow> ''pending'' | approved \<Rightarrow> ''approved'' | rejected \<Rightarrow> ''rejected'')"

definition token_object :: "approval_token \<Rightarrow> json" where
  "token_object t =
     JObj [(''token'', JStr (token t)),
           (''type'', JStr (token_type_name (approval_token.type t))),
           (''used'', JBool (used t)),
           (''usedAt'', opt (\<lambda>d. JNum d) (usedAt t)),
           (''ipAddress'', opt JStr (ipAddress t)),
           (''userAgent'', opt JStr (userAgent t))]"

definition vehicle_object :: "vehicle \<Rightarrow> json" where
  "vehicle_object v =
     JObj [(''brand'', JStr (brand v)), (''model'', JStr (model v)), (''year'', JNum (year v)),
           (''licensePlate'', JStr (licensePlate v)), (''mileage'', JNum (mileage v))]"

definition toObject :: "quote \<Rightarrow> json" where
  "toObject q =
     JObj [(''_id'', JNum (int (quote_id q))),
           (''quoteNumber'', opt JStr (quoteNumber q)),
           (''clientId'', JNum (int (clientId q))),
           (''vehicle'', vehicle_object (vehicle q)),
           (''description'', JStr (description q)),
           (''proposedWork'', JStr (proposedWork q)),
           (''estimatedCost'', JNum (quote.estimatedCost q)),
           (''validUntil'', JNum (validUntil q)),
           (''status'', JStr (quote_status_name (quote.status q))),
           (''approvalTokens'', JArr (map token_object (approvalTokens q))),
           (''emailSent'', JBool (emailSent q)),
           (''emailSentAt'', opt (\<lambda>d. JNum d) (emailSentAt q)),
           (''emailAttempts'', JNum (int (emailAttempts q))),
           (''workOrderId'', opt (\<lambda>i. JNum (int i)) (workOrderId q)),
           (''notes'', opt JStr (quote.notes q)),
           (''isDeleted'', JBool (quote.isDeleted q)),
           (''deletedAt'', (case quote.deletedAt q of None \<Rightarrow> JNull | Some d \<Rightarrow> JNum d)),
           (''deletedBy'', (case quote.deletedBy q of None \<Rightarrow> JNull | Some i \<Rightarrow> JNum (int i)))]"

definition toJSON :: "quote \<Rightarrow> json" where
  "toJSON q = transform (toObject q)"

section \<open>The transition table as the specification words it\<close>

definition spec_table :: "(order_status \<times> order_status) list" where
  "spec_table =
     [(pendiente_asignacion, asignada),
      (asignada, en_progreso), (asignada, pendiente_asignacion),
      (en_progreso, listo), (en_progreso, asignada),
      (listo, entregado), (listo, en_progreso)]"

section \<open>Concrete documents\<close>

text \<open>The data of the smoke test: one client, a pending quote that has been sent, an
  approved quote and its work order, created at the first reading of a clock that has
  been read five times since.\<close>

definition vehicle0 :: vehicle where
  "vehicle0 = \<lparr>brand = ''Toyota'', model = ''Corolla'', year = 2020,
                licensePlate = ''TEST123'', mileage = 50000\<rparr>"

definition client0 :: client where
  "client0 = \<lparr>client_id = 1, email = ''test@example.com''\<rparr>"

definition quote0 :: quote where
  "quote0 = \<lparr>quote_id = 1, quoteNumber = Some ''PRES-0001'', clientId = 1, vehicle = vehicle0,
               description = ''Test description with more than twenty characters'',
               proposedWork = ''Test proposed work with more than twenty characters'',
               quote.estimatedCost = 100000, validUntil = 5000, quote.status = pending,
               approvalTokens =
                 [\<lparr>token = ''tok-approve'', approval_token.type = approve, used = False,
                   usedAt = None, ipAddress = None, userAgent = None\<rparr>,
                  \<lparr>token = ''tok-reject'', approval_token.type = reject, used = False,
                   usedAt = None, ipAddress = None, userAgent = None\<rparr>],
               emailSent = True, emailSentAt = Some 1030, emailAttempts = 1,
               workOrderId = None, quote.notes = None, quote.isDeleted = False,
               quote.deletedAt = None, quote.deletedBy = None\<rparr>"

definition quote1 :: quote where
  "quote1 = quote0\<lparr>quote_id := 2, quoteNumber := Some ''PRES-0002'', quote.status := approved,
                     approvalTokens := [], workOrderId := Some 1\<rparr>"

definition order0 :: work_order where
  "order0 = \<lparr>order_id = 1, orderNumber = Some ''ORD-0001'', quoteId = 2, mechanicId = None,
               vehicleSnapshot = vehicle0, workDescription = ''Cambio de pastillas de freno'',
               work_order.estimatedCost = 100000, finalCost = None,
               work_order.status = pendiente_asignacion,
               statusHistory = [], estimatedDelivery = None, actualDelivery = None,
               additionalNotes = None, additionalWork = None, notifications = [],
               readyEmailSent = False, readyEmailSentAt = None,
               work_order.isDeleted = False, work_order.deletedAt = None,
               work_order.deletedBy = None, createdAt = 1000\<rparr>"

definition world0 :: world where
  "world0 = \<lparr>quotes = [quote0, quote1], orders = [order0], clients = [client0],
               ticks = 5, mails = 0\<rparr>"

definition env0 :: env where
  "env0 = \<lparr>clock = (\<lambda>k. 1000 + 10 * int k), sendMail = (\<lambda>k. None), maxRetries = 3\<rparr>"

text \<open>The same workshop with the order in progress under mechanic 7, and a mail
  transport that refuses every connection.\<close>

definition order_in_progress :: work_order where
  "order_in_progress = order0\<lparr>work_order.status := en_progreso, mechanicId := Some 7\<rparr>"

definition world_in_progress :: world where
  "world_in_progress = world0\<lparr>orders := [order_in_progress]\<rparr>"

definition env_down :: env where
  "env_down = env0\<lparr>sendMail := (\<lambda>k. Some ''connect ECONNREFUSED'')\<rparr>"





section \<open>Notions used to state the properties\<close>

text \<open>The stored data and the mail counter, without the clock counter: reading the
  clock is no change of state.\<close>

definition db :: "world \<Rightarrow> quote list \<times> work_order list \<times> client list \<times> nat" where
  "db w = (quotes w, orders w, clients w, mails w)"

text \<open>What a redemption records on the presented token.\<close>

definition burn :: "date \<Rightarrow> string option \<Rightarrow> string option \<Rightarrow> approval_token \<Rightarrow> approval_token" where
  "burn d addr agent t = t\<lparr>used := True, usedAt := Some d, ipAddress := addr, userAgent := agent\<rparr>"

text \<open>What the specification lets a serialised quote show of a token: its type, its
  used flag and the time of use.\<close>

definition exposed_token :: "approval_token \<Rightarrow> json" where
  "exposed_token t =
     JObj [(''type'', JStr (token_type_name (approval_token.type t))),
           (''used'', JBool (used t)),
           (''usedAt'', opt (\<lambda>d. JNum d) (usedAt t))]"

text \<open>Two documents that agree on every field but those the save hooks write: the
  order number, the ready-mail flag and its time, the notification log.\<close>

definition untouched :: "work_order \<Rightarrow> work_order \<Rightarrow> bool" where
  "untouched d d' =
     (d'\<lparr>orderNumber := orderNumber d, readyEmailSent := readyEmailSent d,
         readyEmailSentAt := readyEmailSentAt d, notifications := notifications d\<rparr> = d)"

text \<open>The stored orders other than a given one, and the stored order with a given id.\<close>

definition others :: "object_id \<Rightarrow> world \<Rightarrow> work_order list" where
  "others i w = filter (\<lambda>x. order_id x \<noteq> i) (orders w)"

definition stored :: "object_id \<Rightarrow> world \<Rightarrow> work_order option" where
  "stored i w = find (\<lambda>x. order_id x = i) (orders w)"



text \<open>The history entry and the document that \<^verbatim>\<open>changeStatus\<close> builds before it
  saves; the first clock reading stamps the entry, the second the delivery.\<close>

definition history_entry ::
  "env \<Rightarrow> world \<Rightarrow> work_order \<Rightarrow> order_status \<Rightarrow> object_id \<Rightarrow> string \<Rightarrow> status_history" where
  "history_entry e w this target actor note =
     \<lparr>previousStatus = work_order.status this, newStatus = target, changedBy = actor,
      changedAt = clock e (ticks w), notes = note\<rparr>"

definition changed ::
  "env \<Rightarrow> world \<Rightarrow> work_order \<Rightarrow> order_status \<Rightarrow> object_id \<Rightarrow> string \<Rightarrow> work_order" where
  "changed e w this target actor note =
     this\<lparr>work_order.status := target,
          statusHistory := statusHistory this @ [history_entry e w this target actor note],
          actualDelivery := (if target = entregado then Some (clock e (Suc (ticks w)))
                             else actualDelivery this)\<rparr>"

definition read_clock :: "nat \<Rightarrow> world \<Rightarrow> world" where
  "read_clock n w = w\<lparr>ticks := ticks w + n\<rparr>"




definition stored_quote :: "object_id \<Rightarrow> world \<Rightarrow> quote option" where
  "stored_quote i w = find (\<lambda>x. quote_id x = i) (quotes w)"

text \<open>The order of the failing run after the hook: marked as notified.\<close>

definition marked_ready :: work_order where
  "marked_ready =
     (changed env_down world_in_progress order_in_progress listo 9 ''Trabajo terminado'')
       \<lparr>readyEmailSent := True, readyEmailSentAt := Some 1060,
        notifications := [ready_sent 1070]\<rparr>"


section \<open>Lists as collections\<close>

lemma find_replaced:
  "k \<in> set (map key xs) \<Longrightarrow> key d = k \<Longrightarrow>
     find (\<lambda>x. key x = k) (map (\<lambda>x. if key x = k then d else x) xs) = Some d"
  by (induction xs) auto

lemma find_appended:
  "k \<notin> set (map key xs) \<Longrightarrow> key d = k \<Longrightarrow> find (\<lambda>x. key x = k) (xs @ [d]) = Some d"
  by (induction xs) auto

lemma find_Some_set: "find P xs = Some x \<Longrightarrow> x \<in> set xs \<and> P x"
  by (induction xs) (auto split: if_splits)

lemma filter_replaced:
  "filter (\<lambda>x. key x \<noteq> k) (map (\<lambda>x. if key x = k then d else x) xs) =
     (if key d = k then filter (\<lambda>x. key x \<noteq> k) xs
      else map (\<lambda>x. if key x = k then d else x) xs)"
  by (induction xs) auto

section \<open>Saving a work order\<close>

lemma untouched_refl [simp]: "untouched d d"
  by (simp add: untouched_def)

lemma untouched_trans: "untouched a b \<Longrightarrow> untouched b c \<Longrightarrow> untouched a c"
  by (cases a, cases b, cases c) (simp add: untouched_def)

lemma untouched_fields:
  "untouched d d' \<Longrightarrow>
     order_id d' = order_id d \<and> quoteId d' = quoteId d \<and> mechanicId d' = mechanicId d \<and>
     vehicleSnapshot d' = vehicleSnapshot d \<and> workDescription d' = workDescription d \<and>
     work_order.estimatedCost d' = work_order.estimatedCost d \<and> finalCost d' = finalCost d \<and>
     work_order.status d' = work_order.status d \<and> statusHistory d' = statusHistory d \<and>
     estimatedDelivery d' = estimatedDelivery d \<and> actualDelivery d' = actualDelivery d \<and>
     additionalNotes d' = additionalNotes d \<and> additionalWork d' = additionalWork d \<and>
     work_order.isDeleted d' = work_order.isDeleted d \<and> createdAt d' = createdAt d"
  by (cases d, cases d') (simp add: untouched_def)

lemma untouched_pre_save [simp]: "untouched d (pre_save w d)"
  by (simp add: pre_save_def untouched_def)

lemma untouched_record_failure [simp]: "untouched d (record_failure err d)"
  by (simp add: record_failure_def push_notification_def untouched_def)

lemma untouched_mark_sent [simp]: "untouched d (fst (mark_sent e w d))"
  by (simp add: mark_sent_def push_notification_def untouched_def now_def)

lemma write_order_rest:
  "write_order w d = Inr w1 \<Longrightarrow>
     quotes w1 = quotes w \<and> clients w1 = clients w \<and> ticks w1 = ticks w \<and> mails w1 = mails w"
  by (auto simp add: write_order_def Let_def split: if_splits)

lemma sendReadyNotification_rest:
  "sendReadyNotification e w d = (r, w1) \<Longrightarrow>
     quotes w1 = quotes w \<and> clients w1 = clients w \<and> orders w1 = orders w \<and> ticks w1 = ticks w"
  by (auto simp add: sendReadyNotification_def split_beta split: option.splits if_splits)

lemma mark_sent_rest:
  "mark_sent e w d = (d1, w1) \<Longrightarrow>
     quotes w1 = quotes w \<and> clients w1 = clients w \<and> orders w1 = orders w \<and> mails w1 = mails w"
  by (auto simp add: mark_sent_def now_def)

lemma save_untouched_aux:
  "save e w this = Some y \<Longrightarrow>
     untouched this (fst (snd y)) \<and> quotes (snd (snd y)) = quotes w \<and> clients (snd (snd y)) = clients w"
proof (induction rule: save.raw_induct [rotated 1, consumes 1])
  case (1 save e w this y)
  define doc where "doc = pre_save w this"
  have ut: "untouched this doc" by (simp add: doc_def)
  show ?case
  proof (cases "validation_errors this \<noteq> []")
    case True
    with 1(2) show ?thesis by (auto simp add: Let_def)
  next
    case valid: False
    show ?thesis
    proof (cases "write_order w doc")
      case (Inl err)
      with 1(2) valid ut show ?thesis by (auto simp add: Let_def doc_def [symmetric])
    next
      case (Inr w1)
      note w1 = write_order_rest [OF Inr]
      show ?thesis
      proof (cases "work_order.status doc = listo \<and> \<not> readyEmailSent doc")
        case False
        with 1(2) valid Inr ut w1 show ?thesis by (auto simp add: Let_def doc_def [symmetric])
      next
        case hook: True
        obtain r w2 where send: "sendReadyNotification e w1 doc = (r, w2)"
          by (cases "sendReadyNotification e w1 doc")
        note w2 = sendReadyNotification_rest [OF send]
        show ?thesis
        proof (cases r)
          case (Inl err)
          with 1(2) valid Inr hook send
          have "save e w2 (record_failure err doc) = Some y"
            by (simp add: Let_def doc_def [symmetric])
          from 1(1) [OF this] have "untouched (record_failure err doc) (fst (snd y))"
            and q: "quotes (snd (snd y)) = quotes w2" "clients (snd (snd y)) = clients w2" by simp_all
          then have "untouched this (fst (snd y))"
            using ut untouched_record_failure [of doc err] by (blast intro: untouched_trans)
          with q w1 w2 show ?thesis by simp
        next
          case (Inr result)
          obtain doc1 w3 where ms: "mark_sent e w2 doc = (doc1, w3)"
            by (cases "mark_sent e w2 doc")
          note w3 = mark_sent_rest [OF ms]
          have ut1: "untouched doc doc1" using untouched_mark_sent [of doc e w2] ms by simp
          from 1(2) valid \<open>write_order w doc = Inr w1\<close> hook send Inr ms
          obtain thrown doc2 w4 where inner: "save e w3 doc1 = Some (thrown, doc2, w4)"
            and rest: "(case thrown of None \<Rightarrow> Some (None, doc2, w4)
                        | Some err \<Rightarrow> save e w4 (record_failure err doc2)) = Some y"
            by (auto simp add: Let_def doc_def [symmetric] bind_eq_Some_conv)
          from 1(1) [OF inner] have i: "untouched doc1 doc2" "quotes w4 = quotes w3" "clients w4 = clients w3"
            by simp_all
          have ut2: "untouched this doc2"
            using ut ut1 i(1) by (blast intro: untouched_trans)
          show ?thesis
          proof (cases thrown)
            case None
            with rest ut2 i w1 w2 w3 show ?thesis by auto
          next
            case (Some err)
            with rest have "save e w4 (record_failure err doc2) = Some y" by simp
            from 1(1) [OF this] have "untouched (record_failure err doc2) (fst (snd y))"
              and q: "quotes (snd (snd y)) = quotes w4" "clients (snd (snd y)) = clients w4" by simp_all
            then have "untouched this (fst (snd y))"
              using ut2 untouched_record_failure [of doc2 err] by (blast intro: untouched_trans)
            with q i w1 w2 w3 show ?thesis by simp
          qed
        qed
      qed
    qed
  qed
qed

lemma save_untouched:
  "save e w this = Some (r, d', w') \<Longrightarrow> untouched this d' \<and> quotes w' = quotes w \<and> clients w' = clients w"
  using save_untouched_aux [of e w this "(r, d', w')"] by simp




lemma write_order_stored:
  "write_order w d = Inr w1 \<Longrightarrow> stored (order_id d) w1 = Some d"
  by (auto simp add: write_order_def Let_def stored_def find_replaced find_appended split: if_splits)

lemma write_order_others:
  "write_order w d = Inr w1 \<Longrightarrow> others (order_id d) w1 = others (order_id d) w"
  by (auto simp add: write_order_def Let_def others_def filter_replaced split: if_splits)






lemma validation_errors_untouched: "untouched d d' \<Longrightarrow> validation_errors d' = validation_errors d"
  by (simp add: validation_errors_def untouched_fields)


lemma save_no_hook:
  "\<not> (work_order.status this = listo \<and> \<not> readyEmailSent this) \<Longrightarrow>
     save e w this =
       (if validation_errors this \<noteq> []
        then Some (Some (ValidationError (validation_errors this)), this, w)
        else (case write_order w (pre_save w this) of
                Inl err \<Rightarrow> Some (Some err, pre_save w this, w)
              | Inr w1 \<Rightarrow> Some (None, pre_save w this, w1)))"
  by (subst save.simps) (auto simp add: Let_def pre_save_def split: sum.splits)

lemma pre_save_numbered:
  "orderNumber (pre_save w d) \<noteq> None \<and> orderNumber (pre_save w d) \<noteq> Some []"
  by (simp add: pre_save_def)

lemma validation_errors_pre_save: "validation_errors (pre_save w d) = validation_errors d"
  by (rule validation_errors_untouched) simp

lemma pre_save_idle:
  "orderNumber d \<noteq> None \<Longrightarrow> orderNumber d \<noteq> Some [] \<Longrightarrow> pre_save w d = d"
  by (simp add: pre_save_def)

lemma pre_save_fields:
  "order_id (pre_save w d) = order_id d" "quoteId (pre_save w d) = quoteId d"
  "work_order.status (pre_save w d) = work_order.status d"
  "vehicleSnapshot (pre_save w d) = vehicleSnapshot d"
  "work_order.estimatedCost (pre_save w d) = work_order.estimatedCost d"
  "readyEmailSent (pre_save w d) = readyEmailSent d"
  by (simp_all add: pre_save_def)

section \<open>Changing the status\<close>

lemma changeStatus_valid:
  "validateStatusTransition this target = Valid \<Longrightarrow>
     changeStatus e w this target actor note =
       save e (read_clock (if target = entregado then 2 else 1) w) (changed e w this target actor note)"
  by (simp add: changeStatus_def now_def Let_def changed_def history_entry_def read_clock_def)


lemma read_clock_fields [simp]:
  "quotes (read_clock n w) = quotes w" "orders (read_clock n w) = orders w"
  "clients (read_clock n w) = clients w" "mails (read_clock n w) = mails w"
  "ticks (read_clock n w) = ticks w + n"
  by (simp_all add: read_clock_def)

lemma others_read_clock [simp]: "others i (read_clock n w) = others i w"
  by (simp add: others_def)

lemma stored_read_clock [simp]: "stored i (read_clock n w) = stored i w"
  by (simp add: stored_def)





lemma write_order_single:
  "orders w = [x] \<Longrightarrow> order_id x = order_id d \<Longrightarrow> write_order w d = Inr (w\<lparr>orders := [d]\<rparr>)"
  by (simp add: write_order_def)



lemma changed_numbered: "orderNumber (changed e w this target actor note) = orderNumber this"
  by (simp add: changed_def)




section \<open>The transition validator\<close>

lemma member_transitions: "(t \<in> set (transitions s)) = ((s, t) \<in> set spec_table)"
  by (cases s; cases t; simp add: spec_table_def)

lemma changeStatus_invalid:
  "validateStatusTransition this target = Invalid reason \<Longrightarrow>
     changeStatus e w this target actor note = Some (Some (Error reason), this, w)"
  by (simp add: changeStatus_def)

lemma validate_not_in_table:
  "(work_order.status this, target) \<notin> set spec_table \<Longrightarrow>
     validateStatusTransition this target = Invalid (cannot_change (work_order.status this) target)"
  by (simp add: validateStatusTransition_def Let_def member_transitions)

lemma validate_no_mechanic:
  "(work_order.status this, en_progreso) \<in> set spec_table \<Longrightarrow> mechanicId this = None \<Longrightarrow>
     validateStatusTransition this en_progreso = Invalid mechanic_required"
  by (simp add: validateStatusTransition_def Let_def member_transitions)

text \<open>
  Claim C1, as the code has it. \<^verbatim>\<open>validateStatusTransition\<close> answers \<^verbatim>\<open>valid\<close>
  exactly for the pairs of the table whose target is not \<^verbatim>\<open>en_progreso\<close> or whose
  order has a mechanic; for every pair outside the table \<^verbatim>\<open>changeStatus\<close> throws the
  message \<^verbatim>\<open>No se puede cambiar de "current" a "target"\<close>, a non-empty text, and
  returns the document and the collections as they were.
\<close>

theorem transition_permitted_iff_table_and_mechanic:
  "((validateStatusTransition this target = Valid) =
      ((work_order.status this, target) \<in> set spec_table \<and>
       (target = en_progreso \<longrightarrow> mechanicId this \<noteq> None))) \<and>
   ((work_order.status this, target) \<notin> set spec_table \<longrightarrow>
      changeStatus e w this target actor note =
        Some (Some (Error (cannot_change (work_order.status this) target)), this, w) \<and>
      cannot_change (work_order.status this) target \<noteq> [])"
proof -
  have "(validateStatusTransition this target = Valid) =
      ((work_order.status this, target) \<in> set spec_table \<and>
       (target = en_progreso \<longrightarrow> mechanicId this \<noteq> None))"
    by (auto simp add: validateStatusTransition_def Let_def member_transitions)
  moreover have "cannot_change (work_order.status this) target \<noteq> []"
    by (simp add: cannot_change_def)
  ultimately show ?thesis
    by (simp add: validate_not_in_table changeStatus_invalid)
qed

theorem transition_permitted_witness:
  "validateStatusTransition (order0\<lparr>work_order.status := asignada, mechanicId := Some 7\<rparr>)
     en_progreso = Valid \<and>
   changeStatus env0 world0 order0 listo 9 ''listo ya'' =
     Some (Some (Error (cannot_change pendiente_asignacion listo)), order0, world0)"
  using transition_permitted_iff_table_and_mechanic
          [of "order0\<lparr>work_order.status := asignada, mechanicId := Some 7\<rparr>" en_progreso]
        transition_permitted_iff_table_and_mechanic
          [of order0 listo env0 world0 9 "''listo ya''"]
  by (simp add: order0_def spec_table_def)

text \<open>
  The claim as written (permitted exactly when the pair is in the table) fails for an
  order in \<^verbatim>\<open>asignada\<close> without a mechanic: the pair (asignada, en_progreso) is in the
  table and the validator rejects it.
\<close>

theorem table_pair_rejected_without_mechanic:
  "(work_order.status (order0\<lparr>work_order.status := asignada\<rparr>), en_progreso) \<in> set spec_table \<and>
   validateStatusTransition (order0\<lparr>work_order.status := asignada\<rparr>) en_progreso
     = Invalid mechanic_required"
  by (simp add: spec_table_def validateStatusTransition_def order0_def)

text \<open>
  Claim C7, as the code has it. Without a mechanic every request for
  \<^verbatim>\<open>en_progreso\<close> is thrown back and nothing is changed; the reason is the missing
  mechanic when the table has the pair, and the table's reason when it has not, the
  table being looked up first.
\<close>

theorem en_progreso_rejected_without_mechanic:
  "mechanicId this = None \<Longrightarrow>
     changeStatus e w this en_progreso actor note =
       Some (Some (Error (if (work_order.status this, en_progreso) \<in> set spec_table
                          then mechanic_required
                          else cannot_change (work_order.status this) en_progreso)), this, w)"
  by (simp add: validate_not_in_table validate_no_mechanic changeStatus_invalid)

theorem en_progreso_rejected_witness:
  "mechanicId (order0\<lparr>work_order.status := asignada\<rparr>) = None \<and>
   changeStatus env0 world0 (order0\<lparr>work_order.status := asignada\<rparr>) en_progreso 9 [] =
     Some (Some (Error mechanic_required), order0\<lparr>work_order.status := asignada\<rparr>, world0)"
  using en_progreso_rejected_without_mechanic
          [of "order0\<lparr>work_order.status := asignada\<rparr>" env0 world0 9 "[]"]
  by (simp add: order0_def spec_table_def)

text \<open>
  The claim as written gives the missing-mechanic reason whatever the current status:
  an order awaiting assignment gets the table's reason instead.
\<close>

theorem en_progreso_reason_from_table:
  "mechanicId order0 = None \<and>
   changeStatus env0 world0 order0 en_progreso 9 [] =
     Some (Some (Error (cannot_change pendiente_asignacion en_progreso)), order0, world0) \<and>
   cannot_change pendiente_asignacion en_progreso \<noteq> mechanic_required"
  by (simp add: changeStatus_def validateStatusTransition_def order0_def
        cannot_change_def mechanic_required_def)

section \<open>Status changes and their history\<close>





section \<open>Approval tokens\<close>

lemma db_now [simp]: "db (snd (now e w)) = db w"
  by (simp add: now_def db_def)

lemma now_eq: "now e w = (clock e (ticks w), w\<lparr>ticks := Suc (ticks w)\<rparr>)"
  by (simp add: now_def)

lemma find_token_None: "(find (\<lambda>t. token t = tok) ts = None) = (tok \<notin> set (map token ts))"
  by (induction ts) auto

lemma validateToken_db: "db (snd (validateToken e w q tok)) = db w"
  by (simp add: validateToken_def now_def db_def split: option.splits)

lemma token_messages_distinct:
  "invalid_token \<noteq> token_used" "invalid_token \<noteq> expired" "invalid_token \<noteq> already_processed"
  "token_used \<noteq> expired" "token_used \<noteq> already_processed" "expired \<noteq> already_processed"
  by (simp_all add: invalid_token_def token_used_def expired_def already_processed_def)

lemma validateToken_result:
  "db (snd (validateToken e w q tok)) = db w \<and>
   (tok \<notin> set (map token (approvalTokens q)) \<longrightarrow>
      fst (validateToken e w q tok) = TokenInvalid invalid_token) \<and>
   (find (\<lambda>t. token t = tok) (approvalTokens q) = Some t \<longrightarrow>
      (used t \<longrightarrow> fst (validateToken e w q tok) = TokenInvalid token_used) \<and>
      (\<not> used t \<and> validUntil q < clock e (ticks w) \<longrightarrow>
         fst (validateToken e w q tok) = TokenInvalid expired) \<and>
      (\<not> used t \<and> \<not> validUntil q < clock e (ticks w) \<and> quote.status q \<noteq> pending \<longrightarrow>
         fst (validateToken e w q tok) = TokenInvalid already_processed) \<and>
      (\<not> used t \<and> \<not> validUntil q < clock e (ticks w) \<and> quote.status q = pending \<longrightarrow>
         fst (validateToken e w q tok) = TokenValid (approval_token.type t) t))"
proof -
  have "tok \<notin> set (map token (approvalTokens q)) \<Longrightarrow>
      fst (validateToken e w q tok) = TokenInvalid invalid_token"
    using find_token_None [of tok "approvalTokens q"] by (simp add: validateToken_def)
  moreover have "find (\<lambda>t. token t = tok) (approvalTokens q) = Some t \<Longrightarrow>
      fst (validateToken e w q tok) =
        (if used t then TokenInvalid token_used
         else if validUntil q < clock e (ticks w) then TokenInvalid expired
         else if quote.status q \<noteq> pending then TokenInvalid already_processed
         else TokenValid (approval_token.type t) t)"
    by (simp add: validateToken_def now_def)
  ultimately show ?thesis
    using validateToken_db [of e w q tok] by simp
qed

lemma approveQuote_invalid:
  assumes "query_token req = Some tok" "tok \<noteq> []"
    and "find (\<lambda>q. quote_id q = param_id req) (quotes w) = Some q"
    and "fst (validateToken e w q tok) = TokenInvalid msg"
  shows "approveQuote e w req = Some (Sent 400 msg, snd (validateToken e w q tok))"
  using assms by (cases "validateToken e w q tok") (simp add: approveQuote_def)

lemma rejectQuote_invalid:
  assumes "query_token req = Some tok" "tok \<noteq> []"
    and "find (\<lambda>q. quote_id q = param_id req) (quotes w) = Some q"
    and "fst (validateToken e w q tok) = TokenInvalid msg"
  shows "rejectQuote e w req = (Sent 400 msg, snd (validateToken e w q tok))"
  using assms by (cases "validateToken e w q tok") (simp add: rejectQuote_def)


text \<open>
  Claim C4. \<^verbatim>\<open>validateToken\<close> returns a verdict and changes nothing that is
  stored. The checks are made in the order of the specification's list: an unknown
  string gives \<^verbatim>\<open>invalid_token\<close>; a found token that is used gives
  \<^verbatim>\<open>token_used\<close>; an unused one gives \<^verbatim>\<open>expired\<close> when the deadline lies before
  the server time, \<^verbatim>\<open>already_processed\<close> when the deadline holds and the quote is
  not pending, and otherwise the verdict valid with the token's type. A redemption
  request whose token fails validation is answered with status 400 and the reason,
  by the approve and by the reject endpoint, and the stored data stay as they were.
\<close>

theorem validateToken_outcomes:
  "db (snd (validateToken e w q tok)) = db w \<and>
   (tok \<notin> set (map token (approvalTokens q)) \<longrightarrow>
      fst (validateToken e w q tok) = TokenInvalid invalid_token) \<and>
   (find (\<lambda>t. token t = tok) (approvalTokens q) = Some t \<longrightarrow>
      (used t \<longrightarrow> fst (validateToken e w q tok) = TokenInvalid token_used) \<and>
      (\<not> used t \<and> validUntil q < clock e (ticks w) \<longrightarrow>
         fst (validateToken e w q tok) = TokenInvalid expired) \<and>
      (\<not> used t \<and> \<not> validUntil q < clock e (ticks w) \<and> quote.status q \<noteq> pending \<longrightarrow>
         fst (validateToken e w q tok) = TokenInvalid already_processed) \<and>
      (\<not> used t \<and> \<not> validUntil q < clock e (ticks w) \<and> quote.status q = pending \<longrightarrow>
         fst (validateToken e w q tok) = TokenValid (approval_token.type t) t)) \<and>
   (query_token req = Some tok \<and> tok \<noteq> [] \<and>
    find (\<lambda>q. quote_id q = param_id req) (quotes w) = Some q \<and>
    fst (validateToken e w q tok) = TokenInvalid msg \<longrightarrow>
      (\<exists>w'. approveQuote e w req = Some (Sent 400 msg, w') \<and> db w' = db w) \<and>
      (\<exists>w'. rejectQuote e w req = (Sent 400 msg, w') \<and> db w' = db w))"
  using validateToken_result [of e w q tok t]
  by (auto simp add: approveQuote_invalid rejectQuote_invalid validateToken_db)

theorem validateToken_outcomes_witness:
  "fst (validateToken env0 world0 quote0 ''nope'') = TokenInvalid invalid_token \<and>
   fst (validateToken env0 world0
          (quote0\<lparr>approvalTokens := map (\<lambda>t. t\<lparr>used := True\<rparr>) (approvalTokens quote0)\<rparr>)
          ''tok-approve'') = TokenInvalid token_used \<and>
   fst (validateToken env0 world0 (quote0\<lparr>validUntil := 10\<rparr>) ''tok-approve'') = TokenInvalid expired \<and>
   fst (validateToken env0 world0 (quote0\<lparr>quote.status := rejected\<rparr>) ''tok-approve'')
     = TokenInvalid already_processed \<and>
   fst (validateToken env0 world0 quote0 ''tok-reject'') = TokenValid reject (approvalTokens quote0 ! 1) \<and>
   (\<exists>w'. approveQuote env0 world0
            \<lparr>param_id = 1, query_token = Some ''nope'', ip = None, user_agent = None\<rparr>
          = Some (Sent 400 invalid_token, w') \<and> db w' = db world0)"
  using validateToken_outcomes [of env0 world0 quote0 "''nope''" "hd (approvalTokens quote0)"
          "\<lparr>param_id = 1, query_token = Some ''nope'', ip = None, user_agent = None\<rparr>" invalid_token]
        validateToken_outcomes [of env0 world0
          "quote0\<lparr>approvalTokens := map (\<lambda>t. t\<lparr>used := True\<rparr>) (approvalTokens quote0)\<rparr>"
          "''tok-approve''" "(hd (approvalTokens quote0))\<lparr>used := True\<rparr>"]
        validateToken_outcomes [of env0 world0 "quote0\<lparr>validUntil := 10\<rparr>"
          "''tok-approve''" "hd (approvalTokens quote0)"]
        validateToken_outcomes [of env0 world0 "quote0\<lparr>quote.status := rejected\<rparr>"
          "''tok-approve''" "hd (approvalTokens quote0)"]
        validateToken_outcomes [of env0 world0 quote0 "''tok-reject''" "approvalTokens quote0 ! 1"]
  by (simp add: quote0_def world0_def env0_def)

lemma map_token_mark_first:
  "(\<And>t. token (f t) = token t) \<Longrightarrow> map token (mark_first tok f ts) = map token ts"
  by (induction ts) auto

lemma find_mark_first:
  "(\<And>t. token (f t) = token t) \<Longrightarrow>
     find (\<lambda>t. token t = tok) (mark_first tok f ts) = map_option f (find (\<lambda>t. token t = tok) ts)"
  by (induction ts) auto

lemma find_other_mark_first:
  "(\<And>t. token (f t) = token t) \<Longrightarrow> s \<noteq> tok \<Longrightarrow>
     find (\<lambda>t. token t = s) (mark_first tok f ts) = find (\<lambda>t. token t = s) ts"
  by (induction ts) auto

lemma map_token_invalidate_others:
  "map token (fst (invalidate_others e tok ts w)) = map token ts"
  by (induction ts arbitrary: w) (auto simp add: now_def split_beta Let_def)

lemma find_invalidate_others:
  "find (\<lambda>t. token t = tok) (fst (invalidate_others e tok ts w)) = find (\<lambda>t. token t = tok) ts"
  by (induction ts arbitrary: w) (auto simp add: now_def split_beta Let_def)

lemma others_used:
  "t \<in> set (fst (invalidate_others e tok ts w)) \<Longrightarrow> token t \<noteq> tok \<Longrightarrow> used t"
  by (induction ts arbitrary: w) (auto simp add: now_def split_beta Let_def split: if_splits)

lemma same_kept:
  "t \<in> set (fst (invalidate_others e tok ts w)) \<Longrightarrow> token t = tok \<Longrightarrow> t \<in> set ts"
  by (induction ts arbitrary: w) (auto simp add: now_def split_beta Let_def split: if_splits)


lemma mark_first_distinct:
  "(\<And>t. token (f t) = token t) \<Longrightarrow> (\<And>t. used (f t)) \<Longrightarrow> distinct (map token ts) \<Longrightarrow>
     t \<in> set (mark_first tok f ts) \<Longrightarrow> token t = tok \<Longrightarrow> used t"
  by (induction ts) (auto split: if_splits)



lemma quote_id_pre_save_quote [simp]: "quote_id (pre_save_quote w q) = quote_id q"
  by (simp add: pre_save_quote_def)

lemma approvalTokens_pre_save_quote [simp]: "approvalTokens (pre_save_quote w q) = approvalTokens q"
  by (simp add: pre_save_quote_def)

lemma fst_save_quote: "fst (save_quote w q) = pre_save_quote w q"
  by (simp add: save_quote_def Let_def)

lemma save_quote_stored:
  "find (\<lambda>x. quote_id x = quote_id q) (quotes (snd (save_quote w q))) = Some (fst (save_quote w q))"
  by (simp add: save_quote_def Let_def find_replaced find_appended)


lemma useToken_found:
  "find (\<lambda>t. token t = tok) (approvalTokens q) = Some t0 \<Longrightarrow>
     useToken e w q tok addr agent =
       save_quote
         (snd (invalidate_others e tok (mark_first tok (burn (clock e (ticks w)) addr agent) (approvalTokens q))
                 (w\<lparr>ticks := Suc (ticks w)\<rparr>)))
         (q\<lparr>approvalTokens :=
              fst (invalidate_others e tok (mark_first tok (burn (clock e (ticks w)) addr agent) (approvalTokens q))
                     (w\<lparr>ticks := Suc (ticks w)\<rparr>))\<rparr>)"
  by (simp add: useToken_def now_def split_beta Let_def burn_def [abs_def])

lemma token_burn [simp]: "token (burn d addr agent t) = token t" "used (burn d addr agent t)"
  by (simp_all add: burn_def)

lemma useToken_tokens:
  "find (\<lambda>t. token t = tok) (approvalTokens q) = Some t0 \<Longrightarrow>
     approvalTokens (fst (useToken e w q tok addr agent)) =
       fst (invalidate_others e tok (mark_first tok (burn (clock e (ticks w)) addr agent) (approvalTokens q))
              (w\<lparr>ticks := Suc (ticks w)\<rparr>))"
  by (simp add: useToken_found fst_save_quote)

lemma validate_used:
  "find (\<lambda>t. token t = s) (approvalTokens q) = Some t \<Longrightarrow> used t \<Longrightarrow>
     fst (validateToken e w q s) = TokenInvalid token_used"
  by (simp add: validateToken_def)

lemma generateTokens_distinct:
  "approveToken \<noteq> rejectToken \<Longrightarrow>
     distinct (map token (approvalTokens (generateTokens q approveToken rejectToken))) \<and>
     map approval_token.type (approvalTokens (generateTokens q approveToken rejectToken)) = [approve, reject] \<and>
     list_all (\<lambda>t. \<not> used t) (approvalTokens (generateTokens q approveToken rejectToken))"
  by (simp add: generateTokens_def)

text \<open>
  Claim C5. When the presented string is among the quote's tokens, \<^verbatim>\<open>useToken\<close>
  marks the token it finds used and records the time read from the server clock, the
  source address and the user agent; every token with another string is marked used
  too, so that with distinct strings (the pair of \<^verbatim>\<open>generateTokens\<close>) every token
  of the quote is used; the strings stay as they were, the quote is stored, and from
  then on \<^verbatim>\<open>validateToken\<close> answers \<^verbatim>\<open>Token ya fue utilizado\<close> for each of the
  quote's token strings, at any time and whatever else is stored.
\<close>

theorem useToken_burns_every_token:
  "find (\<lambda>t. token t = tok) (approvalTokens q) = Some t0 \<Longrightarrow>
   (let q' = fst (useToken e w q tok addr agent); w' = snd (useToken e w q tok addr agent) in
      find (\<lambda>t. token t = tok) (approvalTokens q') = Some (burn (clock e (ticks w)) addr agent t0) \<and>
      map token (approvalTokens q') = map token (approvalTokens q) \<and>
      (\<forall>t \<in> set (approvalTokens q'). token t \<noteq> tok \<longrightarrow> used t) \<and>
      (distinct (map token (approvalTokens q)) \<longrightarrow> (\<forall>t \<in> set (approvalTokens q'). used t)) \<and>
      (\<forall>s \<in> set (map token (approvalTokens q)).
         fst (validateToken e' w'' q' s) = TokenInvalid token_used) \<and>
      find (\<lambda>x. quote_id x = quote_id q) (quotes w') = Some q')"
proof -
  assume found: "find (\<lambda>t. token t = tok) (approvalTokens q) = Some t0"
  define d where "d = clock e (ticks w)"
  define ts1 where "ts1 = mark_first tok (burn d addr agent) (approvalTokens q)"
  define ts2 where "ts2 = fst (invalidate_others e tok ts1 (w\<lparr>ticks := Suc (ticks w)\<rparr>))"
  define q' where "q' = fst (useToken e w q tok addr agent)"
  define w' where "w' = snd (useToken e w q tok addr agent)"
  have toks: "approvalTokens q' = ts2"
    using found by (simp add: q'_def ts2_def ts1_def d_def useToken_tokens)
  have first: "find (\<lambda>t. token t = tok) ts2 = Some (burn d addr agent t0)"
    using found by (simp add: ts2_def ts1_def find_invalidate_others find_mark_first)
  have names: "map token ts2 = map token (approvalTokens q)"
    by (simp add: ts2_def ts1_def map_token_invalidate_others map_token_mark_first)
  have others: "\<forall>t \<in> set ts2. token t \<noteq> tok \<longrightarrow> used t"
    using others_used by (auto simp add: ts2_def)
  have same: "distinct (map token (approvalTokens q)) \<Longrightarrow> t \<in> set ts2 \<Longrightarrow> token t = tok \<Longrightarrow> used t" for t
  proof -
    assume dist: "distinct (map token (approvalTokens q))" and mem: "t \<in> set ts2" and eq: "token t = tok"
    from mem eq have "t \<in> set ts1" unfolding ts2_def by (rule same_kept)
    with dist eq show "used t"
      unfolding ts1_def using mark_first_distinct [of "burn d addr agent" "approvalTokens q" t tok] by simp
  qed
  have second: "fst (validateToken e' w'' q' s) = TokenInvalid token_used"
    if "s \<in> set (map token (approvalTokens q))" for s
  proof (cases "s = tok")
    case True
    with first toks show ?thesis by (simp add: validate_used)
  next
    case False
    from that names have "s \<in> set (map token ts2)" by simp
    then obtain t where t: "find (\<lambda>t. token t = s) ts2 = Some t"
      using find_token_None [of s ts2] by (cases "find (\<lambda>t. token t = s) ts2") auto
    then have "t \<in> set ts2 \<and> token t = s" by (rule find_Some_set)
    with others False have "used t" by auto
    with t toks show ?thesis by (simp add: validate_used)
  qed
  have stored: "find (\<lambda>x. quote_id x = quote_id q) (quotes w') = Some q'"
    using found save_quote_stored [of "q\<lparr>approvalTokens := ts2\<rparr>"]
    by (simp add: q'_def w'_def useToken_found ts2_def ts1_def d_def)
  show ?thesis
    using toks first names others same second stored
    unfolding Let_def q'_def [symmetric] w'_def [symmetric] d_def [symmetric]
    by auto
qed

theorem useToken_burns_witness:
  "find (\<lambda>t. token t = ''tok-approve'') (approvalTokens quote0) = Some (hd (approvalTokens quote0)) \<and>
   approvalTokens (fst (useToken env0 world0 quote0 ''tok-approve'' (Some ''10.0.0.7'') None)) =
     [\<lparr>token = ''tok-approve'', approval_token.type = approve, used = True,
       usedAt = Some 1050, ipAddress = Some ''10.0.0.7'', userAgent = None\<rparr>,
      \<lparr>token = ''tok-reject'', approval_token.type = reject, used = True,
       usedAt = Some 1060, ipAddress = None, userAgent = None\<rparr>] \<and>
   fst (validateToken env0 world0
          (fst (useToken env0 world0 quote0 ''tok-approve'' (Some ''10.0.0.7'') None)) ''tok-reject'')
     = TokenInvalid token_used"
proof -
  have found: "find (\<lambda>t. token t = ''tok-approve'') (approvalTokens quote0) = Some (hd (approvalTokens quote0))"
    by (simp add: quote0_def)
  have toks: "approvalTokens (fst (useToken env0 world0 quote0 ''tok-approve'' (Some ''10.0.0.7'') None)) =
     [\<lparr>token = ''tok-approve'', approval_token.type = approve, used = True,
       usedAt = Some 1050, ipAddress = Some ''10.0.0.7'', userAgent = None\<rparr>,
      \<lparr>token = ''tok-reject'', approval_token.type = reject, used = True,
       usedAt = Some 1060, ipAddress = None, userAgent = None\<rparr>]"
    by (subst useToken_tokens [OF found])
       (simp add: quote0_def world0_def env0_def burn_def now_def)
  have mem: "''tok-reject'' \<in> set (map token (approvalTokens quote0))"
    by (simp add: quote0_def)
  have "\<forall>s \<in> set (map token (approvalTokens quote0)).
          fst (validateToken env0 world0
                 (fst (useToken env0 world0 quote0 ''tok-approve'' (Some ''10.0.0.7'') None)) s)
            = TokenInvalid token_used"
    using useToken_burns_every_token [OF found, of env0 world0 "Some ''10.0.0.7''" None env0 world0]
    by (simp add: Let_def)
  with mem have "fst (validateToken env0 world0
          (fst (useToken env0 world0 quote0 ''tok-approve'' (Some ''10.0.0.7'') None)) ''tok-reject'')
     = TokenInvalid token_used"
    by blast
  with found toks show ?thesis by simp
qed

section \<open>Approving a quote\<close>




















lemma stored_quote_id: "stored_quote i w = Some q \<Longrightarrow> quote_id q = i"
  using find_Some_set [of "\<lambda>x. quote_id x = i" "quotes w" q] by (simp add: stored_quote_def)




























section \<open>The ready notification\<close>

lemma mark_sent_eq:
  "mark_sent e w d =
     (d\<lparr>readyEmailSent := True, readyEmailSentAt := Some (clock e (ticks w)),
        notifications := notifications d @ [ready_sent (clock e (Suc (ticks w)))]\<rparr>,
      read_clock 2 w)"
  by (simp add: mark_sent_def now_def push_notification_def read_clock_def)

lemma write_order_again:
  assumes "write_order w d = Inr w1" "orders w3 = orders w1" "untouched d d1"
    and "orderNumber d1 = orderNumber d"
  shows "write_order w3 d1 = Inr (w3\<lparr>orders := map (\<lambda>x. if order_id x = order_id d then d1 else x) (orders w3)\<rparr>)"
proof -
  have id: "order_id d1 = order_id d" "quoteId d1 = quoteId d"
    using assms(3) by (simp_all add: untouched_fields)
  have o: "filter (\<lambda>x. order_id x \<noteq> order_id d) (orders w3) = filter (\<lambda>x. order_id x \<noteq> order_id d) (orders w)"
    using write_order_others [OF assms(1)] assms(2) by (simp add: others_def)
  have m: "order_id d \<in> set (map order_id (orders w3))"
    using write_order_stored [OF assms(1)] assms(2)
      find_Some_set [of "\<lambda>x. order_id x = order_id d" "orders w1" d]
    by (auto simp add: stored_def)
  from assms(1) have
    "orderNumber d \<notin> set (map orderNumber (filter (\<lambda>x. order_id x \<noteq> order_id d) (orders w)))"
    "quoteId d \<notin> set (map quoteId (filter (\<lambda>x. order_id x \<noteq> order_id d) (orders w)))"
    by (auto simp add: write_order_def Let_def split: if_splits)
  with o m id assms(4) show ?thesis
    by (simp add: write_order_def Let_def del: set_filter)
qed

text \<open>
  When \<^verbatim>\<open>sendReadyNotification\<close> returns, whatever its result, the hook marks the
  order as notified, logs \<^verbatim>\<open>enviado\<close> and saves; that save finds the flag set and
  ends the matter.
\<close>

lemma save_sent_branch:
  assumes "work_order.status this = listo" "\<not> readyEmailSent this" "validation_errors this = []"
    and "write_order w (pre_save w this) = Inr w1"
    and "sendReadyNotification e w1 (pre_save w this) = (Inr result, w2)"
  shows "save e w this =
           Some (None, fst (mark_sent e w2 (pre_save w this)),
                 (read_clock 2 w2)\<lparr>orders :=
                    map (\<lambda>x. if order_id x = order_id this then fst (mark_sent e w2 (pre_save w this)) else x)
                      (orders w1)\<rparr>)"
proof -
  define doc where "doc = pre_save w this"
  define doc1 where "doc1 = fst (mark_sent e w2 doc)"
  have ms: "mark_sent e w2 doc = (doc1, read_clock 2 w2)"
    by (simp add: doc1_def mark_sent_eq)
  have ut: "untouched doc doc1" by (simp add: doc1_def)
  have f: "work_order.status doc = listo" "\<not> readyEmailSent doc" "validation_errors doc = []"
    "order_id doc = order_id this"
    using assms(1-3) by (simp_all add: doc_def pre_save_fields validation_errors_pre_save)
  have n1: "orderNumber doc1 = orderNumber doc" "readyEmailSent doc1"
    by (simp_all add: doc1_def mark_sent_eq)
  have idle: "pre_save (read_clock 2 w2) doc1 = doc1"
    using pre_save_numbered [of w this] by (simp add: pre_save_idle n1 doc_def)
  have v1: "validation_errors doc1 = []"
    using validation_errors_untouched [OF ut] f(3) by simp
  have o: "orders (read_clock 2 w2) = orders w1"
    using sendReadyNotification_rest [OF assms(5)] by simp
  have w: "write_order (read_clock 2 w2) doc1 =
             Inr ((read_clock 2 w2)\<lparr>orders := map (\<lambda>x. if order_id x = order_id doc then doc1 else x)
                                                   (orders (read_clock 2 w2))\<rparr>)"
    using assms(4) o ut n1(1) unfolding doc_def [symmetric] by (rule write_order_again)
  have inner: "save e (read_clock 2 w2) doc1 =
      Some (None, doc1, (read_clock 2 w2)\<lparr>orders := map (\<lambda>x. if order_id x = order_id doc then doc1 else x)
                                                   (orders (read_clock 2 w2))\<rparr>)"
    by (simp add: save_no_hook n1 idle v1 w)
  show ?thesis
    apply (subst save.simps)
    using assms(3,4,5) f ms inner o
    apply (simp add: Let_def doc_def [symmetric] doc1_def [symmetric])
    done
qed

lemma sendWithRetry_down: "sendWithRetry env_down 0 0 = (SendFailed ''connect ECONNREFUSED'', 3)"
  by (simp add: sendWithRetry.simps env_down_def env0_def)

lemma send_down:
  assumes "quotes w = quotes world0" "clients w = clients world0" "mails w = 0" "quoteId d = 2"
  shows "sendReadyNotification env_down w d = (Inr (SendFailed ''connect ECONNREFUSED''), w\<lparr>mails := 3\<rparr>)"
  using assms
  by (simp add: sendReadyNotification_def world0_def quote0_def quote1_def client0_def sendWithRetry_down)

text \<open>
  When \<^verbatim>\<open>sendReadyNotification\<close> throws, the \<^verbatim>\<open>catch\<close> block logs \<^verbatim>\<open>fallido\<close>
  and saves, which runs the hook once more.
\<close>

lemma save_catch_branch:
  assumes "work_order.status this = listo" "\<not> readyEmailSent this" "validation_errors this = []"
    and "write_order w (pre_save w this) = Inr w1"
    and "sendReadyNotification e w1 (pre_save w this) = (Inl err, w2)"
  shows "save e w this = save e w2 (record_failure err (pre_save w this))"
  apply (subst save.simps)
  using assms
  apply (simp add: Let_def pre_save_fields)
  done

text \<open>
  What is thrown depends on the stored quote and client only, so it is thrown again at
  every turn: the save of an order that is ready and whose notification throws ends
  with an error or not at all, never normally.
\<close>

lemma send_throws_again:
  assumes "fst (sendReadyNotification e w d) = Inl err"
    and "quotes w' = quotes w" "clients w' = clients w" "quoteId d' = quoteId d"
  shows "sendReadyNotification e w' d' = (Inl err, w')"
  using assms
  by (auto simp add: sendReadyNotification_def split_beta split: option.splits if_splits)

lemma record_failure_fields:
  "work_order.status (record_failure err d) = work_order.status d"
  "readyEmailSent (record_failure err d) = readyEmailSent d"
  "quoteId (record_failure err d) = quoteId d"
  by (simp_all add: record_failure_def push_notification_def)

lemma save_never_notified_aux:
  "save e w this = Some y \<Longrightarrow>
     work_order.status this = listo \<and> \<not> readyEmailSent this \<and>
     (\<exists>err. fst (sendReadyNotification e w this) = Inl err) \<longrightarrow> fst y \<noteq> None"
proof (induction rule: save.raw_induct [rotated 1, consumes 1])
  case (1 save e w this y)
  show ?case
  proof (intro impI, elim conjE exE)
    fix err
    assume st: "work_order.status this = listo" and fl: "\<not> readyEmailSent this"
      and th: "fst (sendReadyNotification e w this) = Inl err"
    define doc where "doc = pre_save w this"
    have d: "work_order.status doc = listo" "\<not> readyEmailSent doc" "quoteId doc = quoteId this"
      using st fl by (simp_all add: doc_def pre_save_fields)
    show "fst y \<noteq> None"
    proof (cases "validation_errors this \<noteq> []")
      case True
      with 1(2) show ?thesis by auto
    next
      case valid: False
      show ?thesis
      proof (cases "write_order w doc")
        case (Inl e1)
        with 1(2) valid show ?thesis by (auto simp add: Let_def doc_def [symmetric])
      next
        case (Inr w1)
        note r = write_order_rest [OF Inr]
        have send: "sendReadyNotification e w1 doc = (Inl err, w1)"
          using th r d(3) by (intro send_throws_again [of e w this]) simp_all
        with 1(2) valid Inr d
        have rec: "save e w1 (record_failure err doc) = Some y"
          by (simp add: Let_def doc_def [symmetric])
        have "sendReadyNotification e w1 (record_failure err doc) = (Inl err, w1)"
          using th r d(3) by (intro send_throws_again [of e w this]) (simp_all add: record_failure_fields)
        with 1(1) [OF rec] d show ?thesis
          by (simp add: record_failure_fields)
      qed
    qed
  qed
qed

lemma save_never_notified:
  assumes "work_order.status this = listo" "\<not> readyEmailSent this"
    and "fst (sendReadyNotification e w this) = Inl err"
  shows "save e w this \<noteq> Some (None, d', w')"
  using save_never_notified_aux [of e w this "(None, d', w')"] assms by auto

text \<open>
  Claim C8, at a failing input. The order is in progress, its client has an e-mail
  address, and the mail transport refuses all three attempts, so that
  \<^verbatim>\<open>sendReadyNotification\<close> returns \<^verbatim>\<open>{success: false}\<close>. The change to
  \<^verbatim>\<open>listo\<close> returns normally; no mail has been delivered, and yet the order is
  marked \<^verbatim>\<open>readyEmailSent\<close> and its only notification entry says \<^verbatim>\<open>enviado\<close>.
\<close>

theorem transport_down_marked_sent:
  "changeStatus env_down world_in_progress order_in_progress listo 9 ''Trabajo terminado'' =
     Some (None, marked_ready,
           (read_clock 3 world_in_progress)\<lparr>orders := [marked_ready], mails := 3\<rparr>) \<and>
   sendMail env_down 0 \<noteq> None \<and> sendMail env_down 1 \<noteq> None \<and> sendMail env_down 2 \<noteq> None \<and>
   readyEmailSent marked_ready \<and>
   map notification.status (notifications marked_ready) = [enviado]"
proof -
  define d where "d = changed env_down world_in_progress order_in_progress listo 9 ''Trabajo terminado''"
  define w where "w = read_clock 1 world_in_progress"
  have valid: "validateStatusTransition order_in_progress listo = Valid"
    by (simp add: validateStatusTransition_def order_in_progress_def order0_def)
  have d: "work_order.status d = listo" "\<not> readyEmailSent d" "validation_errors d = []"
    "quoteId d = 2" "order_id d = 1" "notifications d = []"
    by (simp_all add: d_def changed_def history_entry_def order_in_progress_def order0_def
          validation_errors_def vehicle0_def too_long_def)
  have idle: "pre_save w d = d"
    by (simp add: pre_save_idle d_def changed_numbered order_in_progress_def order0_def)
  have "write_order w d = Inr (w\<lparr>orders := [d]\<rparr>)"
    by (rule write_order_single [of w order_in_progress])
       (simp_all add: w_def world_in_progress_def d order_in_progress_def order0_def)
  then have wr: "write_order w (pre_save w d) = Inr (w\<lparr>orders := [d]\<rparr>)"
    by (simp only: idle)
  have send: "sendReadyNotification env_down (w\<lparr>orders := [d]\<rparr>) (pre_save w d) =
                (Inr (SendFailed ''connect ECONNREFUSED''), w\<lparr>orders := [d], mails := 3\<rparr>)"
    unfolding idle
    by (rule send_down) (simp_all add: d w_def world_in_progress_def world0_def)
  have t: "clock env_down (ticks w) = 1060" "clock env_down (Suc (ticks w)) = 1070"
    by (simp_all add: w_def world_in_progress_def world0_def env_down_def env0_def)
  have ms: "fst (mark_sent env_down (w\<lparr>orders := [d], mails := 3\<rparr>) d) = marked_ready"
    by (simp add: mark_sent_eq marked_ready_def d_def [symmetric] d(6) t)
  have "changeStatus env_down world_in_progress order_in_progress listo 9 ''Trabajo terminado'' = save env_down w d"
    using valid by (simp add: changeStatus_valid d_def w_def)
  also have "\<dots> = Some (None, marked_ready,
                 (read_clock 2 (w\<lparr>orders := [d], mails := 3\<rparr>))
                   \<lparr>orders := map (\<lambda>x. if order_id x = order_id d then marked_ready else x) [d]\<rparr>)"
    using save_sent_branch [OF d(1,2,3) wr send] by (simp add: idle ms)
  also have "\<dots> = Some (None, marked_ready,
                 (read_clock 3 world_in_progress)\<lparr>orders := [marked_ready], mails := 3\<rparr>)"
    by (simp add: w_def read_clock_def)
  finally show ?thesis
    by (simp add: env_down_def marked_ready_def ready_sent_def)
qed

section \<open>Serialised quotes\<close>

lemma pick_token_object:
  "JObj [(''type'', property (token_object t) ''type''),
         (''used'', property (token_object t) ''used''),
         (''usedAt'', property (token_object t) ''usedAt'')] = exposed_token t"
  by (simp add: token_object_def exposed_token_def)

lemma toJSON_eq:
  "toJSON q =
     (let ret1 = assign (toObject q) ''approvalTokens'' (JArr (map exposed_token (approvalTokens q)))
      in if quote.isDeleted q then ret1 else delete (delete ret1 ''deletedAt'') ''deletedBy'')"
  by (simp add: toJSON_def transform_def toObject_def pick_token_object Let_def)

lemma toJSON_tokens:
  "property (toJSON q) ''approvalTokens'' = JArr (map exposed_token (approvalTokens q))"
  by (simp add: toJSON_eq toObject_def Let_def)

lemma exposed_blank: "exposed_token (t\<lparr>token := s\<rparr>) = exposed_token t"
  by (simp add: exposed_token_def)

lemma exposed_eq:
  assumes "map (\<lambda>t. t\<lparr>token := []\<rparr>) ts' = map (\<lambda>t. t\<lparr>token := []\<rparr>) ts"
  shows "map exposed_token ts' = map exposed_token ts"
proof -
  have "map exposed_token (map (\<lambda>t. t\<lparr>token := []\<rparr>) ts') = map exposed_token (map (\<lambda>t. t\<lparr>token := []\<rparr>) ts)"
    using assms by simp
  then show ?thesis by (simp add: o_def exposed_blank)
qed

text \<open>
  Claim C10. In the serialised quote every approval token is an object with the keys
  \<^verbatim>\<open>type\<close>, \<^verbatim>\<open>used\<close> and \<^verbatim>\<open>usedAt\<close> and nothing else; and a quote whose tokens
  differ from those of \<open>q\<close> in their token strings only is serialised to the very
  same output, so no part of the output depends on a token string.
\<close>

theorem toJSON_hides_tokens:
  "property (toJSON q) ''approvalTokens'' = JArr (map exposed_token (approvalTokens q)) \<and>
   (map (\<lambda>t. t\<lparr>token := []\<rparr>) ts' = map (\<lambda>t. t\<lparr>token := []\<rparr>) (approvalTokens q) \<longrightarrow>
      toJSON (q\<lparr>approvalTokens := ts'\<rparr>) = toJSON q)"
  by (auto simp add: toJSON_tokens toJSON_eq toObject_def Let_def dest: exposed_eq)

theorem toJSON_hides_tokens_witness:
  "toJSON (quote0\<lparr>approvalTokens :=
             map (\<lambda>t. t\<lparr>token := ''another-'' @ token t\<rparr>) (approvalTokens quote0)\<rparr>)
     = toJSON quote0"
  using toJSON_hides_tokens
          [of quote0 "map (\<lambda>t. t\<lparr>token := ''another-'' @ token t\<rparr>) (approvalTokens quote0)"]
  by (simp add: quote0_def)

end
